theory Spec2Isabelle
  imports Main "HOL-Library.Sublist"
begin

section \<open>Python string operations used by the scans\<close>

text \<open>
  \<^verbatim>\<open>needle in hay\<close> on Python strings: \<open>needle\<close> occurs somewhere in \<open>hay\<close> as a
  contiguous run of characters.
\<close>

fun str_contains :: "string \<Rightarrow> string \<Rightarrow> bool" where
  "str_contains needle [] = (needle = [])"
| "str_contains needle (c # cs) =
     (take (length needle) (c # cs) = needle \<or> str_contains needle cs)"

text \<open>\<^verbatim>\<open>s.endswith(suf)\<close>.\<close>

definition endswith :: "string \<Rightarrow> string \<Rightarrow> bool" where
  "endswith s suf = (length suf \<le> length s \<and> drop (length s - length suf) s = suf)"

text \<open>
  \<^verbatim>\<open>s.split(" ")\<close>: cut at every single space; two spaces in a row, or a space at
  either end, give an empty segment, and the empty string gives one empty segment.
\<close>

fun split_space :: "string \<Rightarrow> string list" where
  "split_space [] = [[]]"
| "split_space (c # cs) =
     (if c = CHR '' '' then [] # split_space cs
      else (case split_space cs of [] \<Rightarrow> [[c]] | w # ws \<Rightarrow> (c # w) # ws))"

section \<open>Values the code works on\<close>

text \<open>
  A claim of a decoded token payload: the code compares \<^verbatim>\<open>payload["aud"]\<close> with a string
  and converts \<^verbatim>\<open>payload["exp"]\<close> with \<^verbatim>\<open>datetime.fromtimestamp\<close>.
\<close>

datatype jv = JStr string | JNum int | JOther

type_synonym payload = "string \<rightharpoonup> jv"

text \<open>
  \<^verbatim>\<open>jwt.decode(token, options={"verify_signature": False})\<close> is an external library call:
  it is a parameter of the model, \<open>None\<close> standing for \<^verbatim>\<open>jwt.DecodeError\<close>, which
  both callers catch at once.
\<close>

type_synonym decoder = "string \<Rightarrow> payload option"

text \<open>
  A captured request as the scans read it: \<^verbatim>\<open>request.url\<close> and
  \<^verbatim>\<open>request.headers.get('Authorization')\<close>.
\<close>

record request =
  url :: string
  authorization :: "string option"

datatype exn =
  TimeoutException | NoSuchElementException | WebDriverException
  | DecodeError | KeyError | TypeError | UnboundLocalError

datatype 'a outcome = Returned 'a | Raised exn

section \<open>The two scans of \<^verbatim>\<open>fetch_new_tokens\<close>\<close>

text \<open>How a \<^verbatim>\<open>for request in new_requests\<close> loop ends.\<close>

datatype for_exit = Exhausted | Broke | Threw exn

text \<open>
  The body of the first \<^verbatim>\<open>for\<close> loop (source lines 185 to 200). The local variable
  \<^verbatim>\<open>auth_token\<close> is threaded through: it is assigned on line 193, before the token is
  decoded. \<^verbatim>\<open>payload["aud"]\<close> on a payload with no such key raises \<^verbatim>\<open>KeyError\<close>, which
  the \<^verbatim>\<open>except jwt.DecodeError\<close> does not catch.
\<close>

fun teams_for :: "decoder \<Rightarrow> request list \<Rightarrow> string option \<Rightarrow> string option \<times> for_exit" where
  "teams_for dec [] auth_token = (auth_token, Exhausted)"
| "teams_for dec (r # rs) auth_token =
     (case authorization r of
        None \<Rightarrow> teams_for dec rs auth_token
      | Some auth_header \<Rightarrow>
          if auth_header = [] then teams_for dec rs auth_token
          else if \<not> str_contains ''Bearer'' auth_header then teams_for dec rs auth_token
          else if length (split_space auth_header) \<noteq> 2 then teams_for dec rs auth_token
          else
            (case dec (split_space auth_header ! 1) of
               None \<Rightarrow> teams_for dec rs (Some (split_space auth_header ! 1))
             | Some payload \<Rightarrow>
                 (case payload ''aud'' of
                    None \<Rightarrow> (Some (split_space auth_header ! 1), Threw KeyError)
                  | Some aud \<Rightarrow>
                      if aud = JStr ''https://api.spaces.skype.com''
                      then (Some (split_space auth_header ! 1), Broke)
                      else teams_for dec rs (Some (split_space auth_header ! 1)))))"

text \<open>The body of the second \<^verbatim>\<open>for\<close> loop (source lines 235 to 246).\<close>

fun loki_for :: "request list \<Rightarrow> string option \<Rightarrow> string option \<times> for_exit" where
  "loki_for [] loki_token = (loki_token, Exhausted)"
| "loki_for (r # rs) loki_token =
     (if \<not> endswith (url r) ''loki.delve.office.com'' then loki_for rs loki_token
      else
        (case authorization r of
           None \<Rightarrow> loki_for rs loki_token
         | Some auth_header \<Rightarrow>
             if auth_header = [] then loki_for rs loki_token
             else if \<not> str_contains ''Bearer'' auth_header then loki_for rs loki_token
             else if length (split_space auth_header) \<noteq> 2 then loki_for rs loki_token
             else (Some (split_space auth_header ! 1), Broke)))"

text \<open>
  What a polling loop observes of the browser. Iteration \<open>i\<close> reads the captured-request
  log twice: \<open>log (2 * i)\<close> is \<^verbatim>\<open>driver.requests\<close> when it is sliced, \<open>log (2 * i + 1)\<close>
  is \<^verbatim>\<open>driver.requests\<close> when its length becomes the new cursor. Time is counted in
  milliseconds since \<^verbatim>\<open>start_time\<close>: an iteration takes the 100 ms of
  \<^verbatim>\<open>time.sleep(0.1)\<close> and \<open>busy i\<close> more.
\<close>

record scan_env =
  log :: "nat \<Rightarrow> request list"
  busy :: "nat \<Rightarrow> nat"

text \<open>
  The result of a scan: the token variable at the end, whether the loop was left by
  \<^verbatim>\<open>break\<close>, an exception that left it, and for every iteration the cursor
  \<^verbatim>\<open>last_checked_index\<close> it started from with the number of requests in its slice.
\<close>

record scan_result =
  token :: "string option"
  found :: bool
  threw :: "exn option"
  polls :: "(nat \<times> nat) list"

text \<open>
  The \<^verbatim>\<open>while not found and time.time() - start_time < 30\<close> loop, which the source
  writes twice with the same shape (lines 182 to 203 and 233 to 248); \<open>body\<close> is the
  \<^verbatim>\<open>for\<close> loop inside it. After a \<^verbatim>\<open>break\<close> the flag is set and the loop test fails.
\<close>

function poll_loop ::
  "(request list \<Rightarrow> string option \<Rightarrow> string option \<times> for_exit) \<Rightarrow> scan_env \<Rightarrow>
     nat \<Rightarrow> nat \<Rightarrow> nat \<Rightarrow> string option \<Rightarrow> scan_result" where
  "poll_loop body obs i elapsed last_checked_index tok =
     (if elapsed < 30000 then
        (case body (drop last_checked_index (log obs (2 * i))) tok of
           (tok', Threw e) \<Rightarrow>
             \<lparr>token = tok', found = False, threw = Some e,
              polls = [(last_checked_index, length (log obs (2 * i)) - last_checked_index)]\<rparr>
         | (tok', Broke) \<Rightarrow>
             \<lparr>token = tok', found = True, threw = None,
              polls = [(last_checked_index, length (log obs (2 * i)) - last_checked_index)]\<rparr>
         | (tok', Exhausted) \<Rightarrow>
             (let r = poll_loop body obs (Suc i) (elapsed + 100 + busy obs i)
                        (length (log obs (2 * i + 1))) tok'
              in r\<lparr>polls :=
                     (last_checked_index, length (log obs (2 * i)) - last_checked_index)
                       # polls r\<rparr>))
      else \<lparr>token = tok, found = False, threw = None, polls = []\<rparr>)"
  by pat_completeness auto
termination
  by (relation "measure (\<lambda>(body, obs, i, elapsed, cursor, tok). 30000 - elapsed)") auto

definition teams_scan :: "decoder \<Rightarrow> scan_env \<Rightarrow> scan_result" where
  "teams_scan dec obs = poll_loop (teams_for dec) obs 0 0 0 None"

definition loki_scan :: "scan_env \<Rightarrow> scan_result" where
  "loki_scan obs = poll_loop loki_for obs 0 0 0 None"

section \<open>One fetch attempt: \<^verbatim>\<open>Puppet.fetch_new_tokens\<close>\<close>

text \<open>
  The calls into the driver manager and the browser, in the order of the source. Each is
  made at most once in an attempt, and the browser decides whether it returns or raises.
\<close>

datatype step =
  Install | NewChrome
  | GetPortal | WaitEmail | TypeEmail | WaitNext | ClickNext
  | WaitPassword | TypePassword | WaitSignIn | ClickSignIn
  | WaitStayPrompt | WaitYes | ClickYes
  | WaitProfile | ClickProfile | WaitView | ClickView

text \<open>
  The browser of one attempt: what every call does (\<open>None\<close>: it returns), and what the
  two polling loops observe.
\<close>

record browser =
  step_result :: "step \<Rightarrow> exn option"
  teams_obs :: scan_env
  loki_obs :: scan_env

text \<open>A run of calls stops at the first one that raises.\<close>

fun run_steps :: "(step \<Rightarrow> exn option) \<Rightarrow> step list \<Rightarrow> exn option" where
  "run_steps out [] = None"
| "run_steps out (s # ss) = (case out s of Some e \<Rightarrow> Some e | None \<Rightarrow> run_steps out ss)"

text \<open>
  The inner \<^verbatim>\<open>try\<close> of lines 157 to 175: a \<^verbatim>\<open>TimeoutException\<close> of the
  stay-signed-in prompt is passed over, any other exception goes on to the outer handlers.
\<close>

definition stay_signed_in :: "browser \<Rightarrow> exn option" where
  "stay_signed_in b =
     (case run_steps (step_result b) [WaitStayPrompt, WaitYes, ClickYes] of
        Some TimeoutException \<Rightarrow> None
      | r \<Rightarrow> r)"

text \<open>\<^verbatim>\<open>not auth_token\<close>: true of \<^verbatim>\<open>None\<close> and of the empty string.\<close>

fun falsy :: "string option \<Rightarrow> bool" where
  "falsy None = True"
| "falsy (Some t) = (t = [])"

text \<open>
  The body of the outer \<^verbatim>\<open>try\<close> (lines 106 to 248). It yields the local variables
  \<^verbatim>\<open>auth_token\<close> and \<^verbatim>\<open>loki_token\<close>, whether \<^verbatim>\<open>driver\<close> has been assigned, and the
  exception that ended the body, if one did. The choice of the executable path (lines 113
  to 115) only computes a string for the driver service and is left out.
\<close>

definition try_body :: "decoder \<Rightarrow> browser \<Rightarrow> (string option \<times> string option \<times> bool) \<times> exn option" where
  "try_body dec b =
     (case run_steps (step_result b) [Install, NewChrome] of
        Some e \<Rightarrow> ((None, None, False), Some e)
      | None \<Rightarrow>
     (case run_steps (step_result b)
             [GetPortal, WaitEmail, TypeEmail, WaitNext, ClickNext,
              WaitPassword, TypePassword, WaitSignIn, ClickSignIn] of
        Some e \<Rightarrow> ((None, None, True), Some e)
      | None \<Rightarrow>
     (case stay_signed_in b of
        Some e \<Rightarrow> ((None, None, True), Some e)
      | None \<Rightarrow>
     (case threw (teams_scan dec (teams_obs b)) of
        Some e \<Rightarrow> ((token (teams_scan dec (teams_obs b)), None, True), Some e)
      | None \<Rightarrow>
     (let auth_token =
            (if falsy (token (teams_scan dec (teams_obs b))) then None
             else token (teams_scan dec (teams_obs b)))
      in case run_steps (step_result b) [WaitProfile, ClickProfile, WaitView, ClickView] of
           Some e \<Rightarrow> ((auth_token, None, True), Some e)
         | None \<Rightarrow> ((auth_token, token (loki_scan (loki_obs b)), True), None))))))"

text \<open>The exceptions the three \<^verbatim>\<open>except\<close> clauses of lines 251 to 262 catch.\<close>

fun handled :: "exn \<Rightarrow> bool" where
  "handled TimeoutException = True"
| "handled NoSuchElementException = True"
| "handled WebDriverException = True"
| "handled e = False"

text \<open>
  What a call of \<^verbatim>\<open>fetch_new_tokens\<close> does: it returns the pair or raises, and \<open>quits\<close>
  counts the calls of \<^verbatim>\<open>driver.quit()\<close> that were made.
\<close>

record fetch_result =
  result :: "(string option \<times> string option) outcome"
  quits :: nat

text \<open>
  The handlers and the \<^verbatim>\<open>finally\<close> clause (lines 251 to 266). A handler sets
  \<^verbatim>\<open>auth_token = None\<close> and nothing else. \<^verbatim>\<open>finally: driver.quit()\<close> reads the local
  variable \<^verbatim>\<open>driver\<close>: when it was never assigned, Python raises \<^verbatim>\<open>UnboundLocalError\<close>
  there, which replaces whatever was pending.
\<close>

definition fetch_new_tokens :: "decoder \<Rightarrow> browser \<Rightarrow> fetch_result" where
  "fetch_new_tokens dec b =
     (case try_body dec b of
        ((auth_token, loki_token, driver), exc) \<Rightarrow>
          if \<not> driver then \<lparr>result = Raised UnboundLocalError, quits = 0\<rparr>
          else
            (case exc of
               None \<Rightarrow> \<lparr>result = Returned (auth_token, loki_token), quits = 1\<rparr>
             | Some e \<Rightarrow>
                 if handled e then \<lparr>result = Returned (None, loki_token), quits = 1\<rparr>
                 else \<lparr>result = Raised e, quits = 1\<rparr>))"

section \<open>The token pair and its freshness: \<^verbatim>\<open>Puppet\<close>\<close>

record puppet =
  teams_token :: "string option"
  loki_token :: "string option"

text \<open>
  \<^verbatim>\<open>time_til_expiration\<close> (lines 86 to 97). A \<^verbatim>\<open>timedelta\<close> is a whole number of
  microseconds; \<open>now\<close> is \<^verbatim>\<open>datetime.now()\<close> in microseconds on the scale on which
  \<^verbatim>\<open>fromtimestamp\<close> puts \<open>exp\<close> seconds at \<open>exp * 1000000\<close>. A payload with no
  \<^verbatim>\<open>exp\<close> raises \<^verbatim>\<open>KeyError\<close>, one whose \<^verbatim>\<open>exp\<close> is no number raises \<^verbatim>\<open>TypeError\<close>.
\<close>

definition time_til_expiration :: "decoder \<Rightarrow> int \<Rightarrow> puppet \<Rightarrow> int outcome" where
  "time_til_expiration dec now s =
     (case teams_token s of
        None \<Rightarrow> Returned (- 1000000)
      | Some t \<Rightarrow>
          if t = [] then Returned (- 1000000)
          else
            (case dec t of
               None \<Rightarrow> Returned (- 1000000)
             | Some payload \<Rightarrow>
                 (case payload ''exp'' of
                    None \<Rightarrow> Raised KeyError
                  | Some (JNum e) \<Rightarrow> Returned (e * 1000000 - now)
                  | Some _ \<Rightarrow> Raised TypeError)))"

text \<open>
  The test of lines 67 and 77:
  \<^verbatim>\<open>not self.teams_token or self.time_til_expiration() <= timedelta(minutes=5)\<close>.
\<close>

definition refresh_due :: "decoder \<Rightarrow> int \<Rightarrow> puppet \<Rightarrow> bool outcome" where
  "refresh_due dec now s =
     (if falsy (teams_token s) then Returned True
      else
        (case time_til_expiration dec now s of
           Returned d \<Rightarrow> Returned (d \<le> 300000000)
         | Raised e \<Rightarrow> Raised e))"

text \<open>
  The effect of a call on the object: the token pair afterwards, the exception that
  escaped (if any), and how many times \<^verbatim>\<open>fetch_new_tokens\<close> ran.
\<close>

record effect =
  after :: puppet
  escaped :: "exn option"
  fetches :: nat

text \<open>
  The statement shared by \<^verbatim>\<open>check_tokens\<close> and \<^verbatim>\<open>get_token\<close>: when the test holds,
  \<^verbatim>\<open>self.teams_token, self.loki_token = self.fetch_new_tokens()\<close>.
\<close>

definition check_tokens :: "decoder \<Rightarrow> int \<Rightarrow> browser \<Rightarrow> puppet \<Rightarrow> effect" where
  "check_tokens dec now b s =
     (case refresh_due dec now s of
        Raised e \<Rightarrow> \<lparr>after = s, escaped = Some e, fetches = 0\<rparr>
      | Returned False \<Rightarrow> \<lparr>after = s, escaped = None, fetches = 0\<rparr>
      | Returned True \<Rightarrow>
          (case result (fetch_new_tokens dec b) of
             Raised e \<Rightarrow> \<lparr>after = s, escaped = Some e, fetches = 1\<rparr>
           | Returned (a, l) \<Rightarrow>
               \<lparr>after = s\<lparr>teams_token := a, loki_token := l\<rparr>, escaped = None, fetches = 1\<rparr>))"

text \<open>
  \<^verbatim>\<open>get_token(service)\<close> (lines 70 to 84): the same refresh, then the token of the
  service; any other service name falls off the end of the function and gives \<^verbatim>\<open>None\<close>.
\<close>

definition get_token :: "decoder \<Rightarrow> int \<Rightarrow> browser \<Rightarrow> puppet \<Rightarrow> string \<Rightarrow> effect \<times> string option" where
  "get_token dec now b s service =
     (let c = check_tokens dec now b s in
      if escaped c \<noteq> None then (c, None)
      else if service = ''teams'' then (c, teams_token (after c))
      else if service = ''loki'' then (c, loki_token (after c))
      else (c, None))"

section \<open>Concrete inputs\<close>

text \<open>
  A decoder for the examples: \<open>X\<close> is a teams token that expires at second 3600, \<open>Z\<close> a
  token for another audience, \<open>W\<close> decodes to a payload with no claims, and nothing else
  decodes.
\<close>

definition demo_decoder :: decoder where
  "demo_decoder t =
     (if t = ''X'' then
        Some [''aud'' \<mapsto> JStr ''https://api.spaces.skype.com'', ''exp'' \<mapsto> JNum 3600]
      else if t = ''Z'' then
        Some [''aud'' \<mapsto> JStr ''https://graph.microsoft.com'', ''exp'' \<mapsto> JNum 3600]
      else if t = ''W'' then Some Map.empty
      else None)"

text \<open>A log that never changes, polled once: the first iteration uses up the 30 seconds.\<close>

definition still_log :: "request list \<Rightarrow> scan_env" where
  "still_log rs = \<lparr>log = (\<lambda>n. rs), busy = (\<lambda>i. 30000)\<rparr>"

text \<open>A browser in which every call returns but \<open>st\<close>, which raises \<open>e\<close>.\<close>

definition failing_at :: "step \<Rightarrow> exn \<Rightarrow> step \<Rightarrow> exn option" where
  "failing_at st e s = (if s = st then Some e else None)"

definition no_failure :: "step \<Rightarrow> exn option" where
  "no_failure s = None"







declare poll_loop.simps [simp del]

section \<open>The string operations and the library\<close>

text \<open>
  The executable string tests are the library's \<open>sublist\<close> and \<open>suffix\<close>.
\<close>

lemma take_eq_prefix: "take (length n) h = n \<longleftrightarrow> prefix n h"
  by (metis append_eq_conv_conj prefix_def take_is_prefix)

lemma str_contains_sublist: "str_contains needle hay \<longleftrightarrow> sublist needle hay"
proof (induction hay)
  case Nil
  then show ?case by auto
next
  case (Cons c cs)
  show ?case
  proof (cases needle)
    case Nil
    then show ?thesis by simp
  next
    case (Cons a as)
    then show ?thesis
      using Cons.IH take_eq_prefix [of needle "c # cs"]
      by (simp add: sublist_Cons_right del: take_Suc_Cons) 
  qed
qed

lemma endswith_suffix: "endswith s suf \<longleftrightarrow> suffix suf s"
  unfolding endswith_def
  by (metis append_take_drop_id diff_add_inverse2 drop_all length_append length_drop suffix_def suffix_drop suffix_length_le suffix_order.refl append_eq_conv_conj)

section \<open>Expiry and freshness\<close>





section \<open>Failed attempts\<close>

text \<open>Nothing is assigned to \<^verbatim>\<open>loki_token\<close> on a path of the body that raises.\<close>

lemma try_body_raise_no_loki:
  "try_body dec b = ((a, l, d), Some e) \<Longrightarrow> l = None"
  by (auto simp: try_body_def Let_def split: option.splits)

text \<open>
  Once \<^verbatim>\<open>webdriver.Chrome\<close> has returned, an exception that the handlers catch makes
  the attempt return the pair of two absent tokens, and the browser is closed once.
\<close>

lemma fetch_structural:
  assumes "try_body dec b = ((a, l, True), Some e)" and "handled e"
  shows "fetch_new_tokens dec b = \<lparr>result = Returned (None, None), quits = 1\<rparr>"
  using assms try_body_raise_no_loki [OF assms(1)]
  by (simp add: fetch_new_tokens_def)

lemma quits_once_after_construction:
  "step_result b Install = None \<Longrightarrow> step_result b NewChrome = None \<Longrightarrow>
     quits (fetch_new_tokens dec b) = 1"
  by (auto simp: fetch_new_tokens_def try_body_def Let_def split: option.splits prod.splits)

text \<open>
  C1, as stated, fails. The stored pair is \<open>(X, Y)\<close>, the teams token has one second left,
  and the password field never appears: the attempt fails with a timeout, and
  \<^verbatim>\<open>check_tokens\<close> stores the pair the attempt returned, so both tokens are gone.
\<close>

theorem failed_refresh_overwrites_pair:
  "refresh_due demo_decoder 3599000000 \<lparr>teams_token = Some ''X'', loki_token = Some ''Y''\<rparr>
     = Returned True
   \<and> try_body demo_decoder
        \<lparr>step_result = failing_at WaitPassword TimeoutException,
         teams_obs = still_log [], loki_obs = still_log []\<rparr>
     = ((None, None, True), Some TimeoutException)
   \<and> after (check_tokens demo_decoder 3599000000
        \<lparr>step_result = failing_at WaitPassword TimeoutException,
         teams_obs = still_log [], loki_obs = still_log []\<rparr>
        \<lparr>teams_token = Some ''X'', loki_token = Some ''Y''\<rparr>)
     = \<lparr>teams_token = None, loki_token = None\<rparr>
   \<and> after (check_tokens demo_decoder 3599000000
        \<lparr>step_result = failing_at WaitPassword TimeoutException,
         teams_obs = still_log [], loki_obs = still_log []\<rparr>
        \<lparr>teams_token = Some ''X'', loki_token = Some ''Y''\<rparr>)
     \<noteq> \<lparr>teams_token = Some ''X'', loki_token = Some ''Y''\<rparr>"
  by (simp add: check_tokens_def refresh_due_def time_til_expiration_def demo_decoder_def
        fetch_new_tokens_def try_body_def failing_at_def)

text \<open>
  C1, amended. When a refresh is due and the attempt fails, after the browser was
  created, with a timeout, a missing element or a driver error, \<^verbatim>\<open>check_tokens\<close> and
  \<^verbatim>\<open>get_token\<close> complete without raising, one fetch has run, and the stored pair is the
  pair the failed attempt returned: both tokens absent.
\<close>

theorem failed_refresh_stores_absent_pair:
  assumes "refresh_due dec now s = Returned True"
    and "try_body dec b = ((a, l, True), Some e)" and "handled e"
  shows "check_tokens dec now b s
       = \<lparr>after = s\<lparr>teams_token := None, loki_token := None\<rparr>, escaped = None, fetches = 1\<rparr>
     \<and> get_token dec now b s service
       = (\<lparr>after = s\<lparr>teams_token := None, loki_token := None\<rparr>, escaped = None,
           fetches = 1\<rparr>, None)"
  using assms(1) fetch_structural [OF assms(2,3)]
  by (simp add: check_tokens_def get_token_def Let_def)

theorem failed_refresh_stores_absent_pair_witness:
  "check_tokens demo_decoder 3599000000
       \<lparr>step_result = failing_at ClickView WebDriverException,
        teams_obs = still_log [], loki_obs = still_log []\<rparr>
       \<lparr>teams_token = Some ''X'', loki_token = Some ''Y''\<rparr>
     = \<lparr>after = \<lparr>teams_token = None, loki_token = None\<rparr>, escaped = None, fetches = 1\<rparr>
   \<and> get_token demo_decoder 3599000000
       \<lparr>step_result = failing_at ClickView WebDriverException,
        teams_obs = still_log [], loki_obs = still_log []\<rparr>
       \<lparr>teams_token = Some ''X'', loki_token = Some ''Y''\<rparr> ''teams''
     = (\<lparr>after = \<lparr>teams_token = None, loki_token = None\<rparr>, escaped = None, fetches = 1\<rparr>,
        None)"
proof -
  have due: "refresh_due demo_decoder 3599000000
      \<lparr>teams_token = Some ''X'', loki_token = Some ''Y''\<rparr> = Returned True"
    by (simp add: refresh_due_def time_til_expiration_def demo_decoder_def)
  have body: "try_body demo_decoder
      \<lparr>step_result = failing_at ClickView WebDriverException,
       teams_obs = still_log [], loki_obs = still_log []\<rparr>
      = ((None, None, True), Some WebDriverException)"
    by (simp add: try_body_def failing_at_def stay_signed_in_def teams_scan_def
          still_log_def poll_loop.simps)
  have h: "handled WebDriverException" by simp
  show ?thesis
    using failed_refresh_stores_absent_pair [OF due body h] by simp
qed

text \<open>
  C6 at the input where \<^verbatim>\<open>webdriver.Chrome\<close> itself raises the driver error: the handler
  catches it, but \<^verbatim>\<open>finally: driver.quit()\<close> then reads a variable that was never
  assigned, and the call raises instead of returning the pair of absent tokens.
\<close>

theorem construction_error_raises:
  "handled WebDriverException
   \<and> try_body demo_decoder
        \<lparr>step_result = failing_at NewChrome WebDriverException,
         teams_obs = still_log [], loki_obs = still_log []\<rparr>
     = ((None, None, False), Some WebDriverException)
   \<and> result (fetch_new_tokens demo_decoder
        \<lparr>step_result = failing_at NewChrome WebDriverException,
         teams_obs = still_log [], loki_obs = still_log []\<rparr>)
     = Raised UnboundLocalError"
  by (simp add: fetch_new_tokens_def try_body_def failing_at_def)

text \<open>
  C8 at the same input: no browser was created, \<^verbatim>\<open>driver.quit()\<close> is never reached, and
  the number of releases is zero, not one.
\<close>

theorem construction_error_never_quits:
  "quits (fetch_new_tokens demo_decoder
        \<lparr>step_result = failing_at NewChrome WebDriverException,
         teams_obs = still_log [], loki_obs = still_log []\<rparr>) = 0"
  by (simp add: fetch_new_tokens_def try_body_def failing_at_def)

section \<open>The first scan\<close>

text \<open>
  When the first loop is left by \<^verbatim>\<open>break\<close>, the token it holds decodes to a payload
  whose \<^verbatim>\<open>aud\<close> is the teams audience.
\<close>

lemma teams_for_broke:
  "teams_for dec rs tok = (tok', Broke) \<Longrightarrow>
     \<exists>t p. tok' = Some t \<and> dec t = Some p
        \<and> p ''aud'' = Some (JStr ''https://api.spaces.skype.com'')"
proof (induction rs arbitrary: tok)
  case Nil
  then show ?case by simp
next
  case (Cons r rs)
  then show ?case
    by (cases "authorization r") (auto split: if_splits option.splits)
qed

lemma poll_loop_found:
  "found (poll_loop body obs i el c tok) \<Longrightarrow>
     \<exists>rs tok0. body rs tok0 = (token (poll_loop body obs i el c tok), Broke)"
proof (induction body obs i el c tok rule: poll_loop.induct)
  case (1 body obs i elapsed cursor tok)
  show ?case
  proof (cases "elapsed < 30000")
    case False
    with "1.prems" show ?thesis by (simp add: poll_loop.simps)
  next
    case True
    obtain tok' ex where b: "body (drop cursor (log obs (2 * i))) tok = (tok', ex)"
      by (cases "body (drop cursor (log obs (2 * i))) tok")
    show ?thesis
    proof (cases ex)
      case Exhausted
      have eq: "found (poll_loop body obs i elapsed cursor tok)
            = found (poll_loop body obs (Suc i) (elapsed + 100 + busy obs i)
                (length (log obs (2 * i + 1))) tok')"
        "token (poll_loop body obs i elapsed cursor tok)
            = token (poll_loop body obs (Suc i) (elapsed + 100 + busy obs i)
                (length (log obs (2 * i + 1))) tok')"
        using True b Exhausted by (simp_all add: poll_loop.simps [of body obs i] Let_def)
      from "1.IH" [OF True b [symmetric] Exhausted] "1.prems" show ?thesis
        unfolding eq by simp
    next
      case Broke
      then have "token (poll_loop body obs i elapsed cursor tok) = tok'"
        using True b by (simp add: poll_loop.simps [of body obs i])
      with b Broke show ?thesis by metis
    next
      case (Threw e)
      then have "\<not> found (poll_loop body obs i elapsed cursor tok)"
        using True b by (simp add: poll_loop.simps [of body obs i])
      with "1.prems" show ?thesis by simp
    qed
  qed
qed

lemma teams_scan_found_sound:
  assumes "found (teams_scan dec obs)"
  shows "\<exists>t p. token (teams_scan dec obs) = Some t \<and> dec t = Some p
        \<and> p ''aud'' = Some (JStr ''https://api.spaces.skype.com'')"
proof -
  from poll_loop_found [of "teams_for dec" obs 0 0 0 None] assms
  obtain rs tok0 where "teams_for dec rs tok0 = (token (teams_scan dec obs), Broke)"
    by (auto simp: teams_scan_def)
  then show ?thesis by (rule teams_for_broke)
qed

text \<open>
  C2 at a log whose only request carries \<^verbatim>\<open>Authorization: Bearer junk\<close>, a token that
  does not decode. The loop runs to its deadline without a match, yet the variable
  \<^verbatim>\<open>auth_token\<close> keeps the candidate assigned on line 193, and the attempt returns it as
  the teams token.
\<close>

theorem teams_scan_keeps_unverified_token:
  "demo_decoder ''junk'' = None
   \<and> teams_scan demo_decoder
        (still_log [\<lparr>url = ''https://teams.microsoft.com/api'',
                     authorization = Some ''Bearer junk''\<rparr>])
     = \<lparr>token = Some ''junk'', found = False, threw = None, polls = [(0, 1)]\<rparr>
   \<and> fetch_new_tokens demo_decoder
        \<lparr>step_result = no_failure,
         teams_obs = still_log [\<lparr>url = ''https://teams.microsoft.com/api'',
                                 authorization = Some ''Bearer junk''\<rparr>],
         loki_obs = still_log [\<lparr>url = ''https://teams.microsoft.com/api'',
                                authorization = Some ''Bearer junk''\<rparr>]\<rparr>
     = \<lparr>result = Returned (Some ''junk'', None), quits = 1\<rparr>"
  by (simp add: fetch_new_tokens_def try_body_def stay_signed_in_def no_failure_def
        teams_scan_def loki_scan_def still_log_def demo_decoder_def poll_loop.simps
        endswith_def)

section \<open>Properties of the polling loop\<close>












section \<open>The cursor\<close>



section \<open>The second scan\<close>




section \<open>The header test of both scans\<close>




end
